theory Spec2Isabelle
  imports Complex_Main "HOL-Library.Sublist" "HOL-Library.Multiset"
begin

section \<open>Strings of the page script\<close>

text \<open>
  The script \<^verbatim>\<open>static/script.js\<close> works on JavaScript strings. A string is embedded as a
  list of code units, one \<^typ>\<open>char\<close> per code unit, for the code units U+0000 to U+00FF
  (Basic Latin and Latin-1 Supplement, which hold the Portuguese alphabet). On these code
  units \<^verbatim>\<open>toLowerCase\<close> acts on each code unit alone and \<^verbatim>\<open>trim\<close> removes the
  white space and line terminators U+0009 to U+000D, U+0020 and U+00A0.
\<close>

definition isWhiteSpace :: "char \<Rightarrow> bool" where
  "isWhiteSpace c = ((of_char c :: nat) \<in> {9, 10, 11, 12, 13, 32, 160})"

definition trim :: "string \<Rightarrow> string" where
  "trim s = rev (dropWhile isWhiteSpace (rev (dropWhile isWhiteSpace s)))"

definition lowerUnit :: "char \<Rightarrow> char" where
  "lowerUnit c =
     (let n = (of_char c :: nat)
      in if (65 \<le> n \<and> n \<le> 90) \<or> (192 \<le> n \<and> n \<le> 214) \<or> (216 \<le> n \<and> n \<le> 222)
         then char_of (n + 32) else c)"

definition toLowerCase :: "string \<Rightarrow> string" where
  "toLowerCase s = map lowerUnit s"

text \<open>\<^verbatim>\<open>String.prototype.includes\<close>: the needle occurs in the haystack as a contiguous run.\<close>

fun startsWith :: "string \<Rightarrow> string \<Rightarrow> bool" where
  "startsWith s [] = True"
| "startsWith [] (y # ys) = False"
| "startsWith (x # xs) (y # ys) = (x = y \<and> startsWith xs ys)"

fun includesStr :: "string \<Rightarrow> string \<Rightarrow> bool" where
  "includesStr [] t = (t = [])"
| "includesStr (x # xs) t = (startsWith (x # xs) t \<or> includesStr xs t)"

section \<open>Units and the utilities\<close>

text \<open>
  A unit is one record of the array served by \<^verbatim>\<open>/unidades/all\<close>. The text fields are
  strings and the coordinates are numbers, as the API serves them; a field that is absent
  (\<^verbatim>\<open>undefined\<close>) or \<^verbatim>\<open>null\<close> is \<^const>\<open>None\<close>: the script treats the two alike at
  every place it reads a field.
\<close>

record unidade =
  nome :: "string option"
  rede :: "string option"
  cnpj :: "string option"
  endereco_original :: "string option"
  estado :: "string option"
  latitude :: "real option"
  longitude :: "real option"

text \<open>Truthiness of a field: a string is truthy unless empty, a number unless zero.\<close>

definition truthyStr :: "string option \<Rightarrow> bool" where
  "truthyStr x = (case x of None \<Rightarrow> False | Some s \<Rightarrow> s \<noteq> [])"

definition truthyNum :: "real option \<Rightarrow> bool" where
  "truthyNum x = (case x of None \<Rightarrow> False | Some r \<Rightarrow> r \<noteq> 0)"

text \<open>The expression \<^verbatim>\<open>x || d\<close> for a text field \<open>x\<close> and a string \<open>d\<close>.\<close>

definition orElse :: "string option \<Rightarrow> string \<Rightarrow> string" where
  "orElse x d = (if truthyStr x then the x else d)"

definition safeText :: "string option \<Rightarrow> string" where
  "safeText s = orElse s []"

definition normalizeString :: "string option \<Rightarrow> string" where
  "normalizeString s = toLowerCase (trim (safeText s))"

section \<open>Popups\<close>

text \<open>The template literal of \<^verbatim>\<open>makePopupHtml\<close>, as a function of its four substitutions.\<close>

definition popupTemplate :: "string \<Rightarrow> string \<Rightarrow> string \<Rightarrow> string \<Rightarrow> string" where
  \<open>popupTemplate n r e c =
     ''\<newline>    <div class="popup-title">'' @ n @ ''</div>\<newline>    <div style="font-size:.9rem;margin-top:6px;">\<newline>      <strong>Rede:</strong> '' @ r
     @ ''\<newline>    </div>\<newline>    <div style="font-size:.9rem;">\<newline>      <strong>Endere'' @ [CHR 0xE7] @ ''o:</strong> '' @ e
     @ ''\<newline>    </div>\<newline>    <div style="font-size:.85rem;color:var(--muted);margin-top:6px;">\<newline>      <strong>CNPJ:</strong> '' @ c
     @ ''\<newline>    </div>\<newline>  ''\<close>

definition makePopupHtml :: "unidade \<Rightarrow> string" where
  "makePopupHtml u =
     popupTemplate (orElse (nome u) []) (orElse (rede u) ''N/A'')
       (orElse (endereco_original u) ''N/A'') (orElse (cnpj u) ''N/A'')"

section \<open>Reading the filter form\<close>

text \<open>
  The controls that \<^verbatim>\<open>lerFiltrosForm\<close> reads: the check boxes of
  \<^verbatim>\<open>#filtroRedeContainer\<close> in document order, each with its value and whether it is
  checked, and the values of the two selects and the two text inputs.
\<close>

record form =
  checkboxes :: "(string \<times> bool) list"
  selectEstado :: string
  inputCNPJ :: string
  inputNome :: string
  selectOrdenar :: string

record filtros =
  redes :: "string list"
  estadoSel :: string
  cnpjSel :: string
  nomeSel :: string
  ordenar :: string

definition lerFiltrosForm :: "form \<Rightarrow> filtros" where
  "lerFiltrosForm d =
     \<lparr> redes = map fst (filter snd (checkboxes d)),
       estadoSel = selectEstado d,
       cnpjSel = trim (inputCNPJ d),
       nomeSel = trim (inputNome d),
       ordenar = selectOrdenar d \<rparr>"

section \<open>The filter predicates of applyFilters\<close>

text \<open>The bodies of the four arrow functions handed to \<^verbatim>\<open>Array.prototype.filter\<close>.\<close>

definition passaRede :: "filtros \<Rightarrow> unidade \<Rightarrow> bool" where
  "passaRede f u = (case rede u of None \<Rightarrow> False | Some r \<Rightarrow> r \<in> set (redes f))"

definition passaEstado :: "filtros \<Rightarrow> unidade \<Rightarrow> bool" where
  "passaEstado f u =
     ((truthyStr (estado u) \<and> normalizeString (estado u) = normalizeString (Some (estadoSel f)))
      \<or> (truthyStr (endereco_original u)
          \<and> includesStr (normalizeString (endereco_original u))
                (''-'' @ normalizeString (Some (estadoSel f)))))"

definition passaCnpj :: "filtros \<Rightarrow> unidade \<Rightarrow> bool" where
  "passaCnpj f u = (truthyStr (cnpj u) \<and> includesStr (the (cnpj u)) (cnpjSel f))"

definition passaNome :: "filtros \<Rightarrow> unidade \<Rightarrow> bool" where
  "passaNome f u =
     (truthyStr (nome u)
      \<and> includesStr (normalizeString (nome u)) (normalizeString (Some (nomeSel f))))"

section \<open>Sorting\<close>

text \<open>
  \<^verbatim>\<open>Array.prototype.sort\<close> with a comparison function is a stable sort: an element
  \<open>a\<close> goes before \<open>b\<close> when the function returns a negative number, after it when
  the number is positive, and elements that compare as 0 keep their order. It is embedded
  as the insertion sort that gives this order.
\<close>

fun insere :: "('a \<Rightarrow> 'a \<Rightarrow> int) \<Rightarrow> 'a \<Rightarrow> 'a list \<Rightarrow> 'a list" where
  "insere c x [] = [x]"
| "insere c x (y # ys) = (if c x y \<le> 0 then x # y # ys else y # insere c x ys)"

fun ordena :: "('a \<Rightarrow> 'a \<Rightarrow> int) \<Rightarrow> 'a list \<Rightarrow> 'a list" where
  "ordena c [] = []"
| "ordena c (x # xs) = insere c x (ordena c xs)"

text \<open>
  \<^verbatim>\<open>String.prototype.localeCompare\<close> belongs to the browser and depends on its locale: it is
  a parameter \<open>lc\<close> of the embedding. The four comparison functions of the
  \<^verbatim>\<open>switch\<close> follow; any other value of \<^verbatim>\<open>f.ordenar\<close> matches no \<^verbatim>\<open>case\<close>.
\<close>

type_synonym localeCompare = "string \<Rightarrow> string \<Rightarrow> int"

definition comparador :: "localeCompare \<Rightarrow> string \<Rightarrow> (unidade \<Rightarrow> unidade \<Rightarrow> int) option" where
  "comparador lc modo =
     (if modo = ''nome_az'' then Some (\<lambda>a b. lc (orElse (nome a) []) (orElse (nome b) []))
      else if modo = ''nome_za'' then Some (\<lambda>a b. lc (orElse (nome b) []) (orElse (nome a) []))
      else if modo = ''rede_az'' then Some (\<lambda>a b. lc (orElse (rede a) []) (orElse (rede b) []))
      else if modo = ''rede_za'' then Some (\<lambda>a b. lc (orElse (rede b) []) (orElse (rede a) []))
      else None)"

text \<open>
  The sort key that these comparison functions read from a unit: \<^verbatim>\<open>(a.nome||'')\<close> in the
  two name modes, \<^verbatim>\<open>(a.rede||'')\<close> in the two network modes.
\<close>

definition chaveOrdenacao :: "string \<Rightarrow> unidade \<Rightarrow> string" where
  "chaveOrdenacao modo u =
     (if modo = ''nome_az'' \<or> modo = ''nome_za'' then orElse (nome u) [] else orElse (rede u) [])"

section \<open>The filter and sort pass of applyFilters\<close>

text \<open>
  Lines 226 to 262 of the script on the values of the arrays: the copy of
  \<^verbatim>\<open>unidades\<close>, the four guarded filters in their order, then the \<^verbatim>\<open>switch\<close>.
\<close>

definition filtrar :: "filtros \<Rightarrow> unidade list \<Rightarrow> unidade list" where
  "filtrar f us =
     (let r0 = us;
          r1 = (if redes f \<noteq> [] then filter (passaRede f) r0 else r0);
          r2 = (if estadoSel f \<noteq> [] \<and> estadoSel f \<noteq> ''Todos''
                then filter (passaEstado f) r1 else r1);
          r3 = (if cnpjSel f \<noteq> [] then filter (passaCnpj f) r2 else r2);
          r4 = (if nomeSel f \<noteq> [] then filter (passaNome f) r3 else r3)
      in r4)"

definition filtrarOrdenar :: "localeCompare \<Rightarrow> filtros \<Rightarrow> unidade list \<Rightarrow> unidade list" where
  "filtrarOrdenar lc f us =
     (case comparador lc (ordenar f) of
        None \<Rightarrow> filtrar f us
      | Some c \<Rightarrow> ordena c (filtrar f us))"

section \<open>Markers\<close>

text \<open>
  The colour of a network is \<^verbatim>\<open>REDE_COLORS[u.rede] || REDE_COLORS.DEFAULT\<close>. The lookup
  finds the four own keys of the table and, as on every object literal, the members
  inherited from \<^verbatim>\<open>Object.prototype\<close>, which are truthy values that are not colour
  strings. An absent network reads the key \<^verbatim>\<open>undefined\<close> or \<^verbatim>\<open>null\<close>, which the
  table lacks.
\<close>

definition REDE_COLORS :: "(string \<times> string) list" where
  "REDE_COLORS =
     [(''Novo Mix'', ''#1f77b4''), (''Hiperideal'', ''#ff7f0e''),
      (''Rede Mix'', ''#9467bd''), (''DEFAULT'', ''#2ca02c'')]"

definition objectPrototypeMembers :: "string list" where
  "objectPrototypeMembers =
     [''constructor'', ''hasOwnProperty'', ''isPrototypeOf'', ''propertyIsEnumerable'',
      ''toLocaleString'', ''toString'', ''valueOf'', ''__proto__'', ''__defineGetter__'',
      ''__defineSetter__'', ''__lookupGetter__'', ''__lookupSetter__'']"

datatype cor = Cor string | Herdado string

definition corDaRede :: "string option \<Rightarrow> cor" where
  "corDaRede r =
     (case r of
        None \<Rightarrow> Cor ''#2ca02c''
      | Some k \<Rightarrow>
          (case map_of REDE_COLORS k of
             Some c \<Rightarrow> Cor c
           | None \<Rightarrow> if k \<in> set objectPrototypeMembers then Herdado k else Cor ''#2ca02c''))"

record marcador =
  posicao :: "real \<times> real"
  cor_icone :: cor
  popup :: string

definition criarMarcador :: "unidade \<Rightarrow> marcador option" where
  "criarMarcador u =
     (if \<not> truthyNum (latitude u) \<or> \<not> truthyNum (longitude u) then None
      else Some \<lparr> posicao = (the (latitude u), the (longitude u)),
                  cor_icone = corDaRede (rede u),
                  popup = makePopupHtml u \<rparr>)"

section \<open>The state of the page\<close>

text \<open>
  The module-level variables and the parts of the page the script writes. Arrays of units
  are objects with an identity: \<open>arrays\<close> maps the address of an array to its elements
  and \<open>proximo\<close> is the next unused address, so that copying, filtering (a new array)
  and sorting (in place) are told apart. The two Leaflet layers hold markers; \<open>noMapa\<close>
  is the set of layers attached to the map. The viewport that \<^verbatim>\<open>fitBounds\<close> moves
  is left out. \<open>pedidos\<close> records the URLs that \<^verbatim>\<open>carregarDados\<close> fetches. The
  script never assigns to a field of a unit, so the units themselves are values.
\<close>

datatype camada = ClusterGroup | MarkersLayer

record app =
  status :: string
  arrays :: "nat \<Rightarrow> unidade list"
  proximo :: nat
  unidades :: nat
  unidadesAtuais :: nat
  clusterGroup :: "marcador list"
  markersLayer :: "marcador list"
  noMapa :: "camada set"
  clustersAtivos :: bool
  formulario :: form
  legenda :: "(cor \<times> string) list"
  pedidos :: "string list"

definition novoArray :: "unidade list \<Rightarrow> app \<Rightarrow> nat \<times> app" where
  "novoArray xs s =
     (proximo s, s\<lparr> arrays := (arrays s)(proximo s := xs), proximo := Suc (proximo s) \<rparr>)"

text \<open>\<^verbatim>\<open>a.filter(p)\<close> builds a new array; \<^verbatim>\<open>a.sort(c)\<close> reorders \<open>a\<close> itself.\<close>

definition filtraArray :: "(unidade \<Rightarrow> bool) \<Rightarrow> nat \<Rightarrow> app \<Rightarrow> nat \<times> app" where
  "filtraArray p r s = novoArray (filter p (arrays s r)) s"

definition ordenaArray :: "(unidade \<Rightarrow> unidade \<Rightarrow> int) \<Rightarrow> nat \<Rightarrow> app \<Rightarrow> app" where
  "ordenaArray c r s = s\<lparr> arrays := (arrays s)(r := ordena c (arrays s r)) \<rparr>"

section \<open>Updating the map\<close>

fun adicionarMarcadores :: "unidade list \<Rightarrow> marcador list \<Rightarrow> marcador list" where
  "adicionarMarcadores [] ms = ms"
| "adicionarMarcadores (u # us) ms =
     (case criarMarcador u of
        None \<Rightarrow> adicionarMarcadores us ms
      | Some m \<Rightarrow> adicionarMarcadores us (ms @ [m]))"

definition atualizarMapa :: "nat \<Rightarrow> app \<Rightarrow> app" where
  "atualizarMapa unidadesList s =
     (let s1 = s\<lparr> unidadesAtuais := unidadesList, clusterGroup := [], markersLayer := [] \<rparr>;
          s2 = s1\<lparr> noMapa := noMapa s1 - {ClusterGroup} \<rparr>;
          s3 = s2\<lparr> noMapa := noMapa s2 - {MarkersLayer} \<rparr>;
          s4 = s3\<lparr> markersLayer :=
                      adicionarMarcadores (arrays s3 unidadesList) (markersLayer s3) \<rparr>
      in if clustersAtivos s4
         then s4\<lparr> clusterGroup := clusterGroup s4 @ markersLayer s4,
                  noMapa := insert ClusterGroup (noMapa s4) \<rparr>
         else s4\<lparr> noMapa := insert MarkersLayer (noMapa s4) \<rparr>)"

section \<open>applyFilters on the page\<close>

definition applyFilters :: "localeCompare \<Rightarrow> app \<Rightarrow> app" where
  "applyFilters lc s =
     (let s0 = s\<lparr> status := ''Filtrando...'' \<rparr>;
          f = lerFiltrosForm (formulario s0);
          (r0, s1) = novoArray (arrays s0 (unidades s0)) s0;
          (r1, s2) = (if redes f \<noteq> [] then filtraArray (passaRede f) r0 s1 else (r0, s1));
          (r2, s3) = (if estadoSel f \<noteq> [] \<and> estadoSel f \<noteq> ''Todos''
                      then filtraArray (passaEstado f) r1 s2 else (r1, s2));
          (r3, s4) = (if cnpjSel f \<noteq> [] then filtraArray (passaCnpj f) r2 s3 else (r2, s3));
          (r4, s5) = (if nomeSel f \<noteq> [] then filtraArray (passaNome f) r3 s4 else (r3, s4));
          s6 = (case comparador lc (ordenar f) of
                  None \<Rightarrow> s5
                | Some c \<Rightarrow> ordenaArray c r4 s5);
          s7 = atualizarMapa r4 s6
      in s7\<lparr> status := ''Dados atualizados.'' \<rparr>)"

text \<open>
  The situation of \<^verbatim>\<open>applyFilters\<close> between two of its statements, for the proofs: from
  the page \<open>b\<close> it has reached the page \<open>s\<close>, the variable \<^verbatim>\<open>resultado\<close> is the
  array at \<open>r\<close>, created since \<open>b\<close>, with the elements \<open>xs\<close>, and the arrays of
  \<open>b\<close> and the variable \<^verbatim>\<open>unidades\<close> are as in \<open>b\<close>.
\<close>

definition resultadoEm :: "app \<Rightarrow> nat \<Rightarrow> app \<Rightarrow> unidade list \<Rightarrow> bool" where
  "resultadoEm b r s xs =
     (proximo b \<le> r \<and> r < proximo s \<and> arrays s r = xs
      \<and> (\<forall>a<proximo b. arrays s a = arrays b a) \<and> unidades s = unidades b)"

section \<open>Loading the data\<close>

text \<open>
  An awaited \<^verbatim>\<open>fetch\<close> followed by the awaited \<^verbatim>\<open>json()\<close> of its response either
  rejects (the request fails or the body does not parse), which throws into the
  \<^verbatim>\<open>catch\<close>, or gives the parsed data.
\<close>

datatype 'a resposta = Falha | Dados 'a

definition ENDPOINT_REDES :: string where
  "ENDPOINT_REDES = ''https://ledax-uc.onrender.com//unidades/redes''"

definition ENDPOINT_ALL :: string where
  "ENDPOINT_ALL = ''https://ledax-uc.onrender.com//unidades/all''"

text \<open>
  \<^verbatim>\<open>renderRedes\<close> replaces the check boxes by one checked box per network name and the
  legend by one entry per name.
\<close>

definition renderRedes :: "string list \<Rightarrow> app \<Rightarrow> app" where
  "renderRedes rs s =
     s\<lparr> formulario := (formulario s)\<lparr> checkboxes := map (\<lambda>r. (r, True)) rs \<rparr>,
        legenda := map (\<lambda>r. (corDaRede (Some r), r)) rs \<rparr>"

definition carregarDados ::
  "localeCompare \<Rightarrow> string list resposta \<Rightarrow> unidade list resposta \<Rightarrow> app \<Rightarrow> app" where
  "carregarDados lc respRedes respAll s =
     (let s0 = s\<lparr> status := ''Carregando dados...'' \<rparr>;
          s1 = s0\<lparr> pedidos := pedidos s0 @ [ENDPOINT_REDES] \<rparr>
      in case respRedes of
           Falha \<Rightarrow> s1\<lparr> status := ''Erro ao carregar dados.'' \<rparr>
         | Dados rs \<Rightarrow>
             (let s2 = renderRedes rs s1;
                  s3 = s2\<lparr> pedidos := pedidos s2 @ [ENDPOINT_ALL] \<rparr>
              in case respAll of
                   Falha \<Rightarrow> s3\<lparr> status := ''Erro ao carregar dados.'' \<rparr>
                 | Dados us \<Rightarrow>
                     (let (r, s4) = novoArray us s3;
                          s5 = s4\<lparr> unidades := r \<rparr>;
                          s6 = applyFilters lc s5
                      in s6\<lparr> status := ''Dados carregados.'' \<rparr>)))"

text \<open>
  The page when \<^verbatim>\<open>initMap\<close> calls \<^verbatim>\<open>carregarDados\<close>: both unit arrays are empty
  arrays of their own, the layers hold no marker, \<^verbatim>\<open>markersLayer\<close> is on the map. The
  controls and the status text come from the HTML page.
\<close>

definition estadoInicial :: "form \<Rightarrow> string \<Rightarrow> app" where
  "estadoInicial d txt =
     \<lparr> status = txt, arrays = (\<lambda>_. []), proximo = 2, unidades = 0, unidadesAtuais = 1,
       clusterGroup = [], markersLayer = [], noMapa = {MarkersLayer}, clustersAtivos = True,
       formulario = d, legenda = [], pedidos = [] \<rparr>"

section \<open>Comparison functions\<close>

text \<open>
  ECMAScript requires \<^verbatim>\<open>localeCompare\<close> to be a consistent comparison function: a string
  compares as 0 with itself, swapping the arguments swaps the sign, and the order is
  transitive.
\<close>

definition consistente :: "('a \<Rightarrow> 'a \<Rightarrow> int) \<Rightarrow> bool" where
  "consistente c =
     ((\<forall>a. c a a = 0) \<and> (\<forall>a b. (c a b < 0) = (0 < c b a))
      \<and> (\<forall>a b d. c a b \<le> 0 \<and> c b d \<le> 0 \<longrightarrow> c a d \<le> 0))"

text \<open>A list is in order when no element compares as greater than a later one.\<close>

fun ordenada :: "('a \<Rightarrow> 'a \<Rightarrow> int) \<Rightarrow> 'a list \<Rightarrow> bool" where
  "ordenada c [] = True"
| "ordenada c (x # xs) = (list_all (\<lambda>y. c x y \<le> 0) xs \<and> ordenada c xs)"

text \<open>One consistent comparison function, by code units, for concrete runs.\<close>

fun comparaCodigos :: localeCompare where
  "comparaCodigos [] [] = 0"
| "comparaCodigos [] (y # ys) = - 1"
| "comparaCodigos (x # xs) [] = 1"
| "comparaCodigos (x # xs) (y # ys) =
     (if (of_char x :: nat) < of_char y then - 1
      else if (of_char y :: nat) < of_char x then 1
      else comparaCodigos xs ys)"

section \<open>Facts about sorting\<close>

lemma mset_insere: "mset (insere c x ys) = add_mset x (mset ys)"
  by (induction ys) auto

lemma mset_ordena: "mset (ordena c xs) = mset xs"
  by (induction xs) (auto simp: mset_insere)

lemma set_ordena: "set (ordena c xs) = set xs"
  using mset_ordena [of c xs] by (metis set_mset_mset)

lemma set_insere: "set (insere c x ys) = insert x (set ys)"
  using mset_insere [of c x ys] by (metis set_mset_mset set_mset_add_mset_insert)

lemma ordenada_insere:
  assumes "consistente c" "ordenada c ys"
  shows "ordenada c (insere c x ys)"
  using assms(2)
proof (induction ys)
  case Nil
  then show ?case by simp
next
  case (Cons y ys)
  have tr: "\<And>a b d. c a b \<le> 0 \<Longrightarrow> c b d \<le> 0 \<Longrightarrow> c a d \<le> 0"
    using assms(1) unfolding consistente_def by blast
  have tot: "\<And>a b. \<not> c a b \<le> 0 \<Longrightarrow> c b a \<le> 0"
    using assms(1) unfolding consistente_def by (metis linorder_not_le order_less_imp_le)
  show ?case
  proof (cases "c x y \<le> 0")
    case True
    with Cons.prems show ?thesis
      by (auto simp: list_all_iff intro: tr)
  next
    case False
    with Cons show ?thesis
      by (auto simp: list_all_iff set_insere dest: tot)
  qed
qed

lemma ordenada_ordena: "consistente c \<Longrightarrow> ordenada c (ordena c xs)"
  by (induction xs) (auto intro: ordenada_insere)

lemma insere_menor: "list_all (\<lambda>y. c x y \<le> 0) ys \<Longrightarrow> insere c x ys = x # ys"
  by (cases ys) auto

lemma ordena_ordenada: "ordenada c xs \<Longrightarrow> ordena c xs = xs"
  by (induction xs) (auto simp: insere_menor)

lemma equiv_trans:
  assumes "consistente c" "c k a = 0" "c k y = 0"
  shows "c a y = 0"
proof -
  have sym: "\<And>a b. c a b = 0 \<Longrightarrow> c b a = 0"
    using assms(1) unfolding consistente_def by (metis linorder_neqE_linordered_idom order_less_irrefl)
  have tr: "\<And>a b d. c a b \<le> 0 \<Longrightarrow> c b d \<le> 0 \<Longrightarrow> c a d \<le> 0"
    using assms(1) unfolding consistente_def by blast
  have anti: "\<And>a b. c a b < 0 \<Longrightarrow> 0 < c b a"
    using assms(1) unfolding consistente_def by blast
  have 1: "c a y \<le> 0" using tr [of a k y] sym [OF assms(2)] assms(3) by simp
  have 2: "c y a \<le> 0" using tr [of y k a] sym [OF assms(3)] assms(2) by simp
  from 1 2 anti [of a y] show ?thesis by force
qed

lemma filter_insere:
  assumes "consistente c"
  shows "filter (\<lambda>y. c k y = 0) (insere c x ys) =
         (if c k x = 0 then x # filter (\<lambda>y. c k y = 0) ys else filter (\<lambda>y. c k y = 0) ys)"
proof (induction ys)
  case Nil
  then show ?case by simp
next
  case (Cons y ys)
  show ?case
  proof (cases "c x y \<le> 0")
    case True
    then show ?thesis by simp
  next
    case False
    have "\<not> (c k x = 0 \<and> c k y = 0)"
      using equiv_trans [OF assms, of k x y] False by auto
    with False Cons show ?thesis by auto
  qed
qed

lemma ordena_estavel:
  "consistente c \<Longrightarrow> filter (\<lambda>y. c k y = 0) (ordena c xs) = filter (\<lambda>y. c k y = 0) xs"
  by (induction xs) (auto simp: filter_insere)

section \<open>Facts about the code unit comparison\<close>

lemma cc_refl: "comparaCodigos a a = 0"
  by (induction a) simp_all

lemma cc_anti: "(comparaCodigos a b < 0) = (0 < comparaCodigos b a)"
  by (induction a b rule: comparaCodigos.induct) simp_all

lemma cc_trans:
  "comparaCodigos a b \<le> 0 \<Longrightarrow> comparaCodigos b d \<le> 0 \<Longrightarrow> comparaCodigos a d \<le> 0"
proof (induction a b arbitrary: d rule: comparaCodigos.induct)
  case 1
  then show ?case by simp
next
  case (2 y ys)
  then show ?case by (cases d) simp_all
next
  case (3 x xs)
  then show ?case by simp
next
  case (4 x xs y ys)
  show ?case
  proof (cases d)
    case Nil
    with "4.prems" show ?thesis by simp
  next
    case (Cons z zs)
    let ?x = "of_char x :: nat" and ?y = "of_char y :: nat" and ?z = "of_char z :: nat"
    from "4.prems"(1) have xy: "?x < ?y \<or> (?x = ?y \<and> comparaCodigos xs ys \<le> 0)"
      by (simp split: if_splits)
    from "4.prems"(2) Cons have yz: "?y < ?z \<or> (?y = ?z \<and> comparaCodigos ys zs \<le> 0)"
      by (simp split: if_splits)
    show ?thesis
    proof (cases "?x < ?z")
      case True
      with Cons show ?thesis by simp
    next
      case False
      with xy yz have eq: "?x = ?y" "?y = ?z"
        and le: "comparaCodigos xs ys \<le> 0" "comparaCodigos ys zs \<le> 0"
        by auto
      from eq have "comparaCodigos xs zs \<le> 0"
        using "4.IH" [OF _ _ le] by simp
      with eq Cons show ?thesis by simp
    qed
  qed
qed

lemma consistente_comparaCodigos: "consistente comparaCodigos"
  unfolding consistente_def using cc_refl cc_anti cc_trans by blast

section \<open>Facts about strings\<close>

lemma startsWith_prefix: "startsWith s t = prefix t s"
  by (induction s t rule: startsWith.induct) auto

lemma includesStr_sublist: "includesStr s t = sublist t s"
  by (induction s) (auto simp: startsWith_prefix sublist_Cons_right)

lemma ws_lower: "isWhiteSpace (lowerUnit c) = isWhiteSpace c"
proof -
  let ?n = "of_char c :: nat"
  show ?thesis
  proof (cases "(65 \<le> ?n \<and> ?n \<le> 90) \<or> (192 \<le> ?n \<and> ?n \<le> 214) \<or> (216 \<le> ?n \<and> ?n \<le> 222)")
    case True
    then have m: "(?n + 32) mod 256 = ?n + 32" by auto
    from True have "lowerUnit c = char_of (?n + 32)" by (simp add: lowerUnit_def Let_def)
    then have "(of_char (lowerUnit c) :: nat) = ?n + 32" using m by simp
    with True show ?thesis unfolding isWhiteSpace_def by auto
  next
    case False
    then have "lowerUnit c = c" unfolding lowerUnit_def Let_def by (simp only: if_False)
    then show ?thesis by simp
  qed
qed

lemma dropWhile_lower:
  "dropWhile isWhiteSpace (map lowerUnit s) = map lowerUnit (dropWhile isWhiteSpace s)"
  by (induction s) (simp_all add: ws_lower)

lemma lower_trim: "toLowerCase (trim s) = trim (toLowerCase s)"
  by (simp add: toLowerCase_def trim_def rev_map dropWhile_lower)

lemma sublist_skip_ws:
  "\<forall>c\<in>set w. isWhiteSpace c \<Longrightarrow> p \<noteq> [] \<Longrightarrow> \<not> isWhiteSpace (hd p) \<Longrightarrow> sublist p (w @ t)
   \<Longrightarrow> sublist p t"
proof (induction w)
  case Nil
  then show ?case by simp
next
  case (Cons x w)
  from Cons.prems(4) have "prefix p (x # w @ t) \<or> sublist p (w @ t)"
    by (simp add: sublist_Cons_right)
  then show ?case
  proof
    assume "prefix p (x # w @ t)"
    with Cons.prems(2) have "hd p = x" by (cases p) auto
    with Cons.prems(1,3) show ?thesis by simp
  next
    assume "sublist p (w @ t)"
    with Cons show ?thesis by simp
  qed
qed

lemma trim_decomp:
  "\<exists>w1 w2. s = w1 @ trim s @ w2 \<and> (\<forall>c\<in>set w1. isWhiteSpace c) \<and> (\<forall>c\<in>set w2. isWhiteSpace c)"
proof -
  let ?d = "dropWhile isWhiteSpace s"
  let ?w1 = "takeWhile isWhiteSpace s"
  let ?w2 = "rev (takeWhile isWhiteSpace (rev ?d))"
  have "trim s @ ?w2 = rev (takeWhile isWhiteSpace (rev ?d) @ dropWhile isWhiteSpace (rev ?d))"
    unfolding trim_def by (simp only: rev_append)
  also have "\<dots> = rev (rev ?d)" by (simp only: takeWhile_dropWhile_id)
  finally have d: "?d = trim s @ ?w2" by simp
  have "s = ?w1 @ ?d" by simp
  with d have "s = ?w1 @ trim s @ ?w2" by simp
  moreover have "\<forall>c\<in>set ?w1. isWhiteSpace c" by (auto dest: set_takeWhileD)
  moreover have "\<forall>c\<in>set ?w2. isWhiteSpace c" by (auto dest: set_takeWhileD)
  ultimately show ?thesis by blast
qed

lemma sublist_trim:
  assumes "p \<noteq> []" "\<not> isWhiteSpace (hd p)" "\<not> isWhiteSpace (last p)"
  shows "sublist p (trim s) = sublist p s"
proof
  assume "sublist p (trim s)"
  moreover have "sublist (trim s) s"
    unfolding trim_def by (metis sublist_dropWhile sublist_order.order.trans sublist_rev_left)
  ultimately show "sublist p s" by (rule sublist_order.order.trans)
next
  assume ps: "sublist p s"
  obtain w1 w2 where s: "s = w1 @ trim s @ w2"
    and w1: "\<forall>c\<in>set w1. isWhiteSpace c" and w2: "\<forall>c\<in>set w2. isWhiteSpace c"
    using trim_decomp by blast
  from ps s have "sublist p (w1 @ (trim s @ w2))" by simp
  then have "sublist p (trim s @ w2)" using sublist_skip_ws [OF w1 assms(1,2)] by blast
  then have "sublist (rev p) (rev w2 @ rev (trim s))"
    by (metis rev_append sublist_rev)
  moreover have "\<forall>c\<in>set (rev w2). isWhiteSpace c" using w2 by simp
  moreover have "rev p \<noteq> []" "\<not> isWhiteSpace (hd (rev p))"
    using assms by (simp_all add: hd_rev)
  ultimately have "sublist (rev p) (rev (trim s))" using sublist_skip_ws by blast
  then show "sublist p (trim s)" by simp
qed

section \<open>The filter and sort pass\<close>

lemma filtrar_filter:
  "filtrar f us =
     filter (\<lambda>u. (redes f = [] \<or> passaRede f u)
                \<and> (estadoSel f = [] \<or> estadoSel f = ''Todos'' \<or> passaEstado f u)
                \<and> (cnpjSel f = [] \<or> passaCnpj f u)
                \<and> (nomeSel f = [] \<or> passaNome f u)) us"
  unfolding filtrar_def Let_def by (auto intro: filter_cong)

lemma comparador_None:
  "ordenar f \<notin> {''nome_az'', ''nome_za'', ''rede_az'', ''rede_za''} \<Longrightarrow> comparador lc (ordenar f) = None"
  unfolding comparador_def by simp

lemma mset_filtrarOrdenar: "mset (filtrarOrdenar lc f us) = mset (filtrar f us)"
  unfolding filtrarOrdenar_def by (simp add: mset_ordena split: option.split)

text \<open>
  C10: when \<^verbatim>\<open>f.ordenar\<close> is none of the four values of the \<^verbatim>\<open>switch\<close>, no sorting takes
  place: the result is the filtered list, whose units stand in the order they have in the
  full unit list.
\<close>

theorem applyFilters_sem_ordenacao:
  assumes "ordenar f \<notin> {''nome_az'', ''nome_za'', ''rede_az'', ''rede_za''}"
  shows "filtrarOrdenar lc f us = filtrar f us \<and> subseq (filtrarOrdenar lc f us) us"
proof -
  have r: "filtrarOrdenar lc f us = filtrar f us"
    unfolding filtrarOrdenar_def by (simp add: comparador_None [OF assms])
  have "subseq (filtrarOrdenar lc f us) us"
    unfolding r filtrar_filter by (rule subseq_filter_left)
  with r show ?thesis by simp
qed

theorem applyFilters_sem_ordenacao_witness:
  "''distancia'' \<notin> {''nome_az'', ''nome_za'', ''rede_az'', ''rede_za''}
   \<and> filtrarOrdenar comparaCodigos
       \<lparr> redes = [''Novo Mix'', ''Rede Mix''], estadoSel = ''Todos'', cnpjSel = [], nomeSel = [],
         ordenar = ''distancia'' \<rparr>
       [\<lparr> nome = Some ''Beta'', rede = Some ''Rede Mix'', cnpj = None, endereco_original = None,
          estado = Some ''RJ'', latitude = Some 2, longitude = Some 2 \<rparr>,
        \<lparr> nome = Some ''Gama'', rede = Some ''Hiperideal'', cnpj = None, endereco_original = None,
          estado = Some ''BA'', latitude = Some 3, longitude = Some 3 \<rparr>,
        \<lparr> nome = Some ''Alpha'', rede = Some ''Novo Mix'', cnpj = None, endereco_original = None,
          estado = Some ''SP'', latitude = Some 1, longitude = Some 1 \<rparr>]
     = [\<lparr> nome = Some ''Beta'', rede = Some ''Rede Mix'', cnpj = None, endereco_original = None,
          estado = Some ''RJ'', latitude = Some 2, longitude = Some 2 \<rparr>,
        \<lparr> nome = Some ''Alpha'', rede = Some ''Novo Mix'', cnpj = None, endereco_original = None,
          estado = Some ''SP'', latitude = Some 1, longitude = Some 1 \<rparr>]"
  using applyFilters_sem_ordenacao
    [of "\<lparr> redes = [''Novo Mix'', ''Rede Mix''], estadoSel = ''Todos'', cnpjSel = [], nomeSel = [],
         ordenar = ''distancia'' \<rparr>" comparaCodigos]
  by (simp add: filtrar_def passaRede_def)

text \<open>
  C1, as the script has it: with no network selected the guard \<^verbatim>\<open>if(f.redes.length)\<close>
  skips the network filter, so that the result holds exactly the units that pass the state,
  tax identifier and name filters, whatever their network. It is not the empty list, as the
  single unit below shows.
\<close>

theorem applyFilters_redes_vazio:
  assumes "redes f = []"
  shows "mset (filtrarOrdenar lc f us) =
         mset (filter (\<lambda>u. (estadoSel f = [] \<or> estadoSel f = ''Todos'' \<or> passaEstado f u)
                \<and> (cnpjSel f = [] \<or> passaCnpj f u)
                \<and> (nomeSel f = [] \<or> passaNome f u)) us)"
  unfolding mset_filtrarOrdenar filtrar_filter using assms by simp

theorem applyFilters_redes_vazio_witness:
  "redes \<lparr> redes = [], estadoSel = ''Todos'', cnpjSel = [], nomeSel = [], ordenar = ''nome_az'' \<rparr> = []
   \<and> mset (filtrarOrdenar comparaCodigos
       \<lparr> redes = [], estadoSel = ''Todos'', cnpjSel = [], nomeSel = [], ordenar = ''nome_az'' \<rparr>
       [\<lparr> nome = Some ''Beta'', rede = Some ''Rede Mix'', cnpj = None, endereco_original = None,
          estado = Some ''RJ'', latitude = Some 2, longitude = Some 2 \<rparr>,
        \<lparr> nome = Some ''Alpha'', rede = Some ''Novo Mix'', cnpj = None, endereco_original = None,
          estado = Some ''SP'', latitude = Some 1, longitude = Some 1 \<rparr>])
     = mset [\<lparr> nome = Some ''Beta'', rede = Some ''Rede Mix'', cnpj = None, endereco_original = None,
          estado = Some ''RJ'', latitude = Some 2, longitude = Some 2 \<rparr>,
        \<lparr> nome = Some ''Alpha'', rede = Some ''Novo Mix'', cnpj = None, endereco_original = None,
          estado = Some ''SP'', latitude = Some 1, longitude = Some 1 \<rparr>]"
  using applyFilters_redes_vazio
    [of "\<lparr> redes = [], estadoSel = ''Todos'', cnpjSel = [], nomeSel = [], ordenar = ''nome_az'' \<rparr>"
        comparaCodigos]
  by simp

theorem applyFilters_redes_vazio_counterexample:
  "filtrarOrdenar comparaCodigos
     \<lparr> redes = [], estadoSel = ''Todos'', cnpjSel = [], nomeSel = [], ordenar = ''nome_az'' \<rparr>
     [\<lparr> nome = Some ''Alpha'', rede = Some ''Novo Mix'', cnpj = None, endereco_original = None,
        estado = Some ''SP'', latitude = Some 1, longitude = Some 1 \<rparr>] \<noteq> []"
  by (simp add: filtrarOrdenar_def filtrar_def comparador_def)


section \<open>Sorting in applyFilters\<close>

lemma consistente_chave:
  assumes "consistente lc"
  shows "consistente (\<lambda>a b. lc (k a) (k b))"
  using assms unfolding consistente_def by blast

lemma consistente_chave_inv:
  assumes "consistente lc"
  shows "consistente (\<lambda>a b. lc (k b) (k a))"
  using assms unfolding consistente_def by blast

lemma comparador_chave:
  assumes "comparador lc m = Some c"
  shows "c a b = (if m = ''nome_az'' \<or> m = ''rede_az''
                  then lc (chaveOrdenacao m a) (chaveOrdenacao m b)
                  else lc (chaveOrdenacao m b) (chaveOrdenacao m a))"
proof -
  consider "m = ''nome_az''" | "m = ''nome_za''" | "m = ''rede_az''" | "m = ''rede_za''"
    using assms unfolding comparador_def by (auto split: if_splits)
  then show ?thesis
  proof cases
    case 1
    with assms show ?thesis by (auto simp: comparador_def chaveOrdenacao_def)
  next
    case 2
    with assms show ?thesis by (auto simp: comparador_def chaveOrdenacao_def)
  next
    case 3
    with assms show ?thesis by (auto simp: comparador_def chaveOrdenacao_def)
  next
    case 4
    with assms show ?thesis by (auto simp: comparador_def chaveOrdenacao_def)
  qed
qed

lemma comparador_consistente:
  assumes "consistente lc" "comparador lc m = Some c"
  shows "consistente c"
proof -
  have "c = (\<lambda>a b. if m = ''nome_az'' \<or> m = ''rede_az''
                  then lc (chaveOrdenacao m a) (chaveOrdenacao m b)
                  else lc (chaveOrdenacao m b) (chaveOrdenacao m a))"
    by (intro ext) (rule comparador_chave [OF assms(2)])
  then show ?thesis
    using consistente_chave [OF assms(1), of "chaveOrdenacao m"]
      consistente_chave_inv [OF assms(1), of "chaveOrdenacao m"]
    by (cases "m = ''nome_az'' \<or> m = ''rede_az''") simp_all
qed

lemma comparador_Some:
  "m \<in> {''nome_az'', ''nome_za'', ''rede_az'', ''rede_za''} \<Longrightarrow> \<exists>c. comparador lc m = Some c"
  unfolding comparador_def by auto

lemma ordena_estavel_pred:
  assumes "consistente c" "\<And>y. P y \<Longrightarrow> c x y = 0"
  shows "filter P (ordena c xs) = filter P xs"
proof -
  have "filter P zs = filter P (filter (\<lambda>y. c x y = 0) zs)" for zs
    using assms(2) by (auto intro: filter_cong)
  then show ?thesis
    by (metis ordena_estavel [OF assms(1)])
qed

lemma filtrar_idem: "filtrar f (filtrar f us) = filtrar f us"
  unfolding filtrar_filter by simp

lemma filter_ordena_id: "filter P us = us \<Longrightarrow> filter P (ordena c us) = ordena c us"
  by (simp add: filter_id_conv set_ordena)

lemma filtrar_ordena: "filtrar f us = us \<Longrightarrow> filtrar f (ordena c us) = ordena c us"
  unfolding filtrar_filter by (rule filter_ordena_id)


text \<open>
  C6: the filter and sort pass is idempotent. For every unit list and all criteria, running
  the pass on its own result with the same criteria gives the same list, for every
  consistent \<^verbatim>\<open>localeCompare\<close>.
\<close>

theorem applyFilters_idempotente:
  assumes "consistente lc"
  shows "filtrarOrdenar lc f (filtrarOrdenar lc f us) = filtrarOrdenar lc f us"
proof (cases "comparador lc (ordenar f)")
  case None
  then show ?thesis by (simp add: filtrarOrdenar_def filtrar_idem)
next
  case (Some c)
  have cons: "consistente c" by (rule comparador_consistente [OF assms Some])
  have "filtrar f (ordena c (filtrar f us)) = ordena c (filtrar f us)"
    by (rule filtrar_ordena) (rule filtrar_idem)
  moreover have "ordena c (ordena c (filtrar f us)) = ordena c (filtrar f us)"
    by (rule ordena_ordenada) (rule ordenada_ordena [OF cons])
  ultimately show ?thesis using Some by (simp add: filtrarOrdenar_def)
qed


theorem applyFilters_idempotente_witness:
  "consistente comparaCodigos
   \<and> filtrarOrdenar comparaCodigos
       \<lparr> redes = [''Novo Mix'', ''Rede Mix''], estadoSel = ''Todos'', cnpjSel = [],
         nomeSel = [], ordenar = ''nome_za'' \<rparr>
       (filtrarOrdenar comparaCodigos
         \<lparr> redes = [''Novo Mix'', ''Rede Mix''], estadoSel = ''Todos'', cnpjSel = [],
           nomeSel = [], ordenar = ''nome_za'' \<rparr>
         [\<lparr> nome = Some ''Alpha'', rede = Some ''Novo Mix'', cnpj = None, endereco_original = None,
            estado = Some ''SP'', latitude = Some 1, longitude = Some 1 \<rparr>,
          \<lparr> nome = Some ''Gama'', rede = Some ''Hiperideal'', cnpj = None, endereco_original = None,
            estado = Some ''BA'', latitude = Some 3, longitude = Some 3 \<rparr>,
          \<lparr> nome = Some ''Beta'', rede = Some ''Rede Mix'', cnpj = None, endereco_original = None,
            estado = Some ''RJ'', latitude = Some 2, longitude = Some 2 \<rparr>])
     = [\<lparr> nome = Some ''Beta'', rede = Some ''Rede Mix'', cnpj = None, endereco_original = None,
          estado = Some ''RJ'', latitude = Some 2, longitude = Some 2 \<rparr>,
        \<lparr> nome = Some ''Alpha'', rede = Some ''Novo Mix'', cnpj = None, endereco_original = None,
          estado = Some ''SP'', latitude = Some 1, longitude = Some 1 \<rparr>]"
proof -
  have c: "consistente comparaCodigos" by (rule consistente_comparaCodigos)
  have ev: "filtrarOrdenar comparaCodigos
       \<lparr> redes = [''Novo Mix'', ''Rede Mix''], estadoSel = ''Todos'', cnpjSel = [],
         nomeSel = [], ordenar = ''nome_za'' \<rparr>
         [\<lparr> nome = Some ''Alpha'', rede = Some ''Novo Mix'', cnpj = None, endereco_original = None,
            estado = Some ''SP'', latitude = Some 1, longitude = Some 1 \<rparr>,
          \<lparr> nome = Some ''Gama'', rede = Some ''Hiperideal'', cnpj = None, endereco_original = None,
            estado = Some ''BA'', latitude = Some 3, longitude = Some 3 \<rparr>,
          \<lparr> nome = Some ''Beta'', rede = Some ''Rede Mix'', cnpj = None, endereco_original = None,
            estado = Some ''RJ'', latitude = Some 2, longitude = Some 2 \<rparr>]
     = [\<lparr> nome = Some ''Beta'', rede = Some ''Rede Mix'', cnpj = None, endereco_original = None,
          estado = Some ''RJ'', latitude = Some 2, longitude = Some 2 \<rparr>,
        \<lparr> nome = Some ''Alpha'', rede = Some ''Novo Mix'', cnpj = None, endereco_original = None,
          estado = Some ''SP'', latitude = Some 1, longitude = Some 1 \<rparr>]"
    by (simp add: filtrarOrdenar_def filtrar_def comparador_def passaRede_def orElse_def
        truthyStr_def)
  show ?thesis
    by (rule conjI [OF c trans [OF applyFilters_idempotente [OF c] ev]])
qed


text \<open>
  C7: in each of the four sort modes the result is the stable sort of the filtered list.
  Sorting comes after the filters; the result is a permutation of the filtered list, in
  order for the comparison function of the mode, which compares every pair; the units
  that compare as equal to a given unit, and so the units with one and the same sort key,
  keep their order in the filtered list; the comparison function compares the sort keys by
  \<^verbatim>\<open>localeCompare\<close>, in the reverse direction for the descending modes, and the sort
  key of a unit whose name (or network) is absent or empty is the empty string.
\<close>

theorem applyFilters_ordenacao_estavel:
  assumes "consistente lc"
    and "ordenar f \<in> {''nome_az'', ''nome_za'', ''rede_az'', ''rede_za''}"
  shows "\<exists>c. comparador lc (ordenar f) = Some c
           \<and> filtrarOrdenar lc f us = ordena c (filtrar f us)
           \<and> mset (filtrarOrdenar lc f us) = mset (filtrar f us)
           \<and> ordenada c (filtrarOrdenar lc f us)
           \<and> (\<forall>a b. c a b \<le> 0 \<or> c b a \<le> 0)
           \<and> (\<forall>x. filter (\<lambda>u. c x u = 0) (filtrarOrdenar lc f us)
                   = filter (\<lambda>u. c x u = 0) (filtrar f us))
           \<and> (\<forall>k. filter (\<lambda>u. chaveOrdenacao (ordenar f) u = k) (filtrarOrdenar lc f us)
                   = filter (\<lambda>u. chaveOrdenacao (ordenar f) u = k) (filtrar f us))
           \<and> (\<forall>a b. c a b = (if ordenar f = ''nome_az'' \<or> ordenar f = ''rede_az''
                              then lc (chaveOrdenacao (ordenar f) a) (chaveOrdenacao (ordenar f) b)
                              else lc (chaveOrdenacao (ordenar f) b) (chaveOrdenacao (ordenar f) a)))
           \<and> (\<forall>u. (ordenar f = ''nome_az'' \<or> ordenar f = ''nome_za'') \<and> (nome u = None \<or> nome u = Some [])
                   \<longrightarrow> chaveOrdenacao (ordenar f) u = [])
           \<and> (\<forall>u. (ordenar f = ''rede_az'' \<or> ordenar f = ''rede_za'') \<and> (rede u = None \<or> rede u = Some [])
                   \<longrightarrow> chaveOrdenacao (ordenar f) u = [])"
proof -
  let ?m = "ordenar f"
  obtain c where c: "comparador lc ?m = Some c"
    using comparador_Some [OF assms(2)] by blast
  have cons: "consistente c" by (rule comparador_consistente [OF assms(1) c])
  have ch: "c a b = (if ?m = ''nome_az'' \<or> ?m = ''rede_az''
                      then lc (chaveOrdenacao ?m a) (chaveOrdenacao ?m b)
                      else lc (chaveOrdenacao ?m b) (chaveOrdenacao ?m a))" for a b
    by (rule comparador_chave [OF c])
  have r: "filtrarOrdenar lc f us = ordena c (filtrar f us)"
    using c by (simp add: filtrarOrdenar_def)
  have m: "mset (filtrarOrdenar lc f us) = mset (filtrar f us)"
    by (rule mset_filtrarOrdenar)
  have s: "ordenada c (filtrarOrdenar lc f us)"
    unfolding r by (rule ordenada_ordena [OF cons])
  have t: "c a b \<le> 0 \<or> c b a \<le> 0" for a b
    using cons unfolding consistente_def by (metis linorder_not_le order_less_imp_le)
  have e: "filter (\<lambda>u. c x u = 0) (filtrarOrdenar lc f us) = filter (\<lambda>u. c x u = 0) (filtrar f us)" for x
    unfolding r by (rule ordena_estavel [OF cons])
  have k: "filter (\<lambda>u. chaveOrdenacao ?m u = k) (filtrarOrdenar lc f us)
           = filter (\<lambda>u. chaveOrdenacao ?m u = k) (filtrar f us)" for k
  proof (cases "\<exists>x. chaveOrdenacao ?m x = k")
    case True
    then obtain x where x: "chaveOrdenacao ?m x = k" by blast
    have lc0: "lc k k = 0" using assms(1) unfolding consistente_def by blast
    have "c x y = 0" if "chaveOrdenacao ?m y = k" for y
      unfolding ch that x lc0 by simp
    then show ?thesis unfolding r by (rule ordena_estavel_pred [OF cons])
  next
    case False
    then show ?thesis by simp
  qed
  have n: "chaveOrdenacao ?m u = []"
    if "(?m = ''nome_az'' \<or> ?m = ''nome_za'') \<and> (nome u = None \<or> nome u = Some [])" for u
    using that by (auto simp: chaveOrdenacao_def orElse_def truthyStr_def)
  have d: "chaveOrdenacao ?m u = []"
    if "(?m = ''rede_az'' \<or> ?m = ''rede_za'') \<and> (rede u = None \<or> rede u = Some [])" for u
    using that by (auto simp: chaveOrdenacao_def orElse_def truthyStr_def)
  show ?thesis
  proof (intro exI [of _ c] conjI allI impI)
    show "comparador lc ?m = Some c" by (rule c)
    show "filtrarOrdenar lc f us = ordena c (filtrar f us)" by (rule r)
    show "mset (filtrarOrdenar lc f us) = mset (filtrar f us)" by (rule m)
    show "ordenada c (filtrarOrdenar lc f us)" by (rule s)
    show "c a b \<le> 0 \<or> c b a \<le> 0" for a b by (rule t)
    show "filter (\<lambda>u. c x u = 0) (filtrarOrdenar lc f us) = filter (\<lambda>u. c x u = 0) (filtrar f us)"
      for x by (rule e)
    show "filter (\<lambda>u. chaveOrdenacao ?m u = k) (filtrarOrdenar lc f us)
           = filter (\<lambda>u. chaveOrdenacao ?m u = k) (filtrar f us)" for k by (rule k)
    show "c a b = (if ?m = ''nome_az'' \<or> ?m = ''rede_az''
                      then lc (chaveOrdenacao ?m a) (chaveOrdenacao ?m b)
                      else lc (chaveOrdenacao ?m b) (chaveOrdenacao ?m a))" for a b by (rule ch)
    show "chaveOrdenacao ?m u = []"
      if "(?m = ''nome_az'' \<or> ?m = ''nome_za'') \<and> (nome u = None \<or> nome u = Some [])" for u
      using that by (rule n)
    show "chaveOrdenacao ?m u = []"
      if "(?m = ''rede_az'' \<or> ?m = ''rede_za'') \<and> (rede u = None \<or> rede u = Some [])" for u
      using that by (rule d)
  qed
qed

theorem applyFilters_ordenacao_estavel_witness:
  "consistente comparaCodigos
   \<and> ''nome_az'' \<in> {''nome_az'', ''nome_za'', ''rede_az'', ''rede_za''}
   \<and> filtrarOrdenar comparaCodigos
       \<lparr> redes = [''Novo Mix'', ''Rede Mix'', ''Hiperideal''], estadoSel = ''Todos'', cnpjSel = [],
         nomeSel = [], ordenar = ''nome_az'' \<rparr>
       [\<lparr> nome = Some ''Beta'', rede = Some ''Rede Mix'', cnpj = None, endereco_original = None,
          estado = Some ''RJ'', latitude = Some 2, longitude = Some 2 \<rparr>,
        \<lparr> nome = Some ''Alpha'', rede = Some ''Novo Mix'', cnpj = None, endereco_original = None,
          estado = Some ''SP'', latitude = Some 1, longitude = Some 1 \<rparr>,
        \<lparr> nome = Some ''Beta'', rede = Some ''Novo Mix'', cnpj = None, endereco_original = None,
          estado = Some ''BA'', latitude = Some 3, longitude = Some 3 \<rparr>,
        \<lparr> nome = None, rede = Some ''Hiperideal'', cnpj = None, endereco_original = None,
          estado = None, latitude = None, longitude = None \<rparr>]
     = [\<lparr> nome = None, rede = Some ''Hiperideal'', cnpj = None, endereco_original = None,
          estado = None, latitude = None, longitude = None \<rparr>,
        \<lparr> nome = Some ''Alpha'', rede = Some ''Novo Mix'', cnpj = None, endereco_original = None,
          estado = Some ''SP'', latitude = Some 1, longitude = Some 1 \<rparr>,
        \<lparr> nome = Some ''Beta'', rede = Some ''Rede Mix'', cnpj = None, endereco_original = None,
          estado = Some ''RJ'', latitude = Some 2, longitude = Some 2 \<rparr>,
        \<lparr> nome = Some ''Beta'', rede = Some ''Novo Mix'', cnpj = None, endereco_original = None,
          estado = Some ''BA'', latitude = Some 3, longitude = Some 3 \<rparr>]"
proof -
  let ?f = "\<lparr> redes = [''Novo Mix'', ''Rede Mix'', ''Hiperideal''], estadoSel = ''Todos'',
              cnpjSel = [], nomeSel = [], ordenar = ''nome_az'' \<rparr>"
  let ?us = "[\<lparr> nome = Some ''Beta'', rede = Some ''Rede Mix'', cnpj = None, endereco_original = None,
          estado = Some ''RJ'', latitude = Some 2, longitude = Some 2 \<rparr>,
        \<lparr> nome = Some ''Alpha'', rede = Some ''Novo Mix'', cnpj = None, endereco_original = None,
          estado = Some ''SP'', latitude = Some 1, longitude = Some 1 \<rparr>,
        \<lparr> nome = Some ''Beta'', rede = Some ''Novo Mix'', cnpj = None, endereco_original = None,
          estado = Some ''BA'', latitude = Some 3, longitude = Some 3 \<rparr>,
        \<lparr> nome = None, rede = Some ''Hiperideal'', cnpj = None, endereco_original = None,
          estado = None, latitude = None, longitude = None \<rparr>]"
  have c: "consistente comparaCodigos" by (rule consistente_comparaCodigos)
  have m: "ordenar ?f \<in> {''nome_az'', ''nome_za'', ''rede_az'', ''rede_za''}" by simp
  obtain cmp where cmp: "comparador comparaCodigos (ordenar ?f) = Some cmp"
    and r: "filtrarOrdenar comparaCodigos ?f ?us = ordena cmp (filtrar ?f ?us)"
    using applyFilters_ordenacao_estavel [OF c m, of ?us] by blast
  from cmp have "cmp = (\<lambda>a b. comparaCodigos (orElse (nome a) []) (orElse (nome b) []))"
    by (simp add: comparador_def)
  with r have "filtrarOrdenar comparaCodigos ?f ?us
     = ordena (\<lambda>a b. comparaCodigos (orElse (nome a) []) (orElse (nome b) [])) (filtrar ?f ?us)"
    by simp
  then show ?thesis using c
    by (simp add: filtrar_def passaRede_def orElse_def truthyStr_def)
qed


section \<open>The text predicates\<close>

lemma normalizeString_Some: "normalizeString (Some s) = toLowerCase (trim s)"
  by (simp add: normalizeString_def safeText_def orElse_def truthyStr_def)

lemma lower_eq_Nil: "toLowerCase s = toLowerCase s' \<Longrightarrow> (s = []) = (s' = [])"
  unfolding toLowerCase_def by (metis map_is_Nil_conv)

lemma trim_last: "trim s \<noteq> [] \<Longrightarrow> \<not> isWhiteSpace (last (trim s))"
  unfolding trim_def by (simp add: last_rev hd_dropWhile)

lemma padrao_estado:
  "sublist (CHR ''-'' # toLowerCase (trim q)) (toLowerCase (trim a))
     = sublist (CHR ''-'' # toLowerCase (trim q)) (toLowerCase a)"
proof -
  let ?p = "CHR ''-'' # toLowerCase (trim q)"
  have h: "\<not> isWhiteSpace (hd ?p)" by (simp add: isWhiteSpace_def)
  have l: "\<not> isWhiteSpace (last ?p)"
  proof (cases "trim q = []")
    case True
    then show ?thesis by (simp add: toLowerCase_def isWhiteSpace_def)
  next
    case False
    then have "last ?p = lowerUnit (last (trim q))"
      by (simp add: toLowerCase_def last_map)
    with trim_last [OF False] show ?thesis by (simp add: ws_lower)
  qed
  have "?p \<noteq> []" by simp
  from sublist_trim [OF this h l] show ?thesis by (simp only: lower_trim)
qed

lemma passaEstado_iff:
  "passaEstado f u =
     ((\<exists>e. estado u = Some e \<and> e \<noteq> []
            \<and> toLowerCase (trim e) = toLowerCase (trim (estadoSel f)))
      \<or> (\<exists>a. endereco_original u = Some a
            \<and> sublist (''-'' @ toLowerCase (trim (estadoSel f))) (toLowerCase a)))"
proof -
  have a: "(truthyStr (endereco_original u)
            \<and> includesStr (normalizeString (endereco_original u))
                 (''-'' @ normalizeString (Some (estadoSel f))))
           = (\<exists>a. endereco_original u = Some a
               \<and> sublist (''-'' @ toLowerCase (trim (estadoSel f))) (toLowerCase a))"
  proof (cases "endereco_original u")
    case None
    then show ?thesis by (simp add: truthyStr_def)
  next
    case (Some a)
    show ?thesis
    proof (cases "a = []")
      case True
      with Some show ?thesis by (simp add: truthyStr_def toLowerCase_def)
    next
      case False
      with Some show ?thesis
        by (simp add: truthyStr_def normalizeString_Some includesStr_sublist padrao_estado)
    qed
  qed
  have e: "(truthyStr (estado u) \<and> normalizeString (estado u) = normalizeString (Some (estadoSel f)))
           = (\<exists>e. estado u = Some e \<and> e \<noteq> []
               \<and> toLowerCase (trim e) = toLowerCase (trim (estadoSel f)))"
    by (cases "estado u") (auto simp: truthyStr_def normalizeString_Some)
  show ?thesis unfolding passaEstado_def a e ..
qed

lemma passaNome_iff:
  "passaNome f u =
     (\<exists>n. nome u = Some n \<and> n \<noteq> []
          \<and> sublist (toLowerCase (trim (nomeSel f))) (toLowerCase (trim n)))"
  unfolding passaNome_def
  by (cases "nome u") (auto simp: truthyStr_def normalizeString_Some includesStr_sublist)

lemma passaCnpj_iff:
  "passaCnpj f u = (\<exists>c. cnpj u = Some c \<and> c \<noteq> [] \<and> sublist (cnpjSel f) c)"
  unfolding passaCnpj_def
  by (cases "cnpj u") (auto simp: truthyStr_def includesStr_sublist)

lemma normaliza_lower:
  assumes "toLowerCase s = toLowerCase s'"
  shows "toLowerCase (trim s) = toLowerCase (trim s')"
  using assms by (simp only: lower_trim)

lemma char_eq_char_of: "(c = char_of (n::nat)) = (take_bit 8 n = of_char c)"
  using char_of_eq_iff [of n c] by auto

lemmas avalia_texto =
  toLowerCase_def lowerUnit_def char_of_eq_iff char_eq_char_of take_bit_eq_mod trim_def
  isWhiteSpace_def
  normalizeString_def safeText_def orElse_def truthyStr_def

lemma filtrar_estado:
  assumes "estadoSel f \<noteq> []" and "estadoSel f \<noteq> ''Todos''"
  shows "filtrar f us = filter (passaEstado f) (filtrar (f\<lparr> estadoSel := ''Todos'' \<rparr>) us)"
proof -
  have "passaRede (f\<lparr> estadoSel := ''Todos'' \<rparr>) = passaRede f"
    by (intro ext) (simp add: passaRede_def split: option.split)
  moreover have "passaCnpj (f\<lparr> estadoSel := ''Todos'' \<rparr>) = passaCnpj f"
    by (intro ext) (simp add: passaCnpj_def)
  moreover have "passaNome (f\<lparr> estadoSel := ''Todos'' \<rparr>) = passaNome f"
    by (intro ext) (simp add: passaNome_def)
  ultimately show ?thesis
    unfolding filtrar_filter using assms by (auto intro: filter_cong)
qed

text \<open>
  C5, as the script has it: the state filter compares through \<^verbatim>\<open>normalizeString\<close>, which
  trims before it lowers the case. A unit passes if and only if its state field is present,
  not empty and equal to the selected state once both are trimmed and lowercased, or its
  address, lowercased, contains \<open>-\<close> followed by the trimmed, lowercased selected state.
  With a specific state selected, the filtered list is the list filtered without a state,
  restricted to these units. A state field with a leading space is accepted although it is
  not equal to the selected state up to case, as the unit below shows.
\<close>

theorem applyFilters_estado:
  assumes "estadoSel f \<noteq> []" and "estadoSel f \<noteq> ''Todos''"
  shows "(passaEstado f u =
           ((\<exists>e. estado u = Some e \<and> e \<noteq> []
                  \<and> toLowerCase (trim e) = toLowerCase (trim (estadoSel f)))
            \<or> (\<exists>a. endereco_original u = Some a
                  \<and> sublist (''-'' @ toLowerCase (trim (estadoSel f))) (toLowerCase a))))
         \<and> filtrar f us = filter (passaEstado f) (filtrar (f\<lparr> estadoSel := ''Todos'' \<rparr>) us)"
  using passaEstado_iff [of f u] filtrar_estado [OF assms, of us] by simp

theorem applyFilters_estado_witness:
  "estadoSel \<lparr> redes = [], estadoSel = ''sp'', cnpjSel = [], nomeSel = [], ordenar = [] \<rparr> \<noteq> []
   \<and> estadoSel \<lparr> redes = [], estadoSel = ''sp'', cnpjSel = [], nomeSel = [], ordenar = [] \<rparr>
       \<noteq> ''Todos''
   \<and> filtrar \<lparr> redes = [], estadoSel = ''sp'', cnpjSel = [], nomeSel = [], ordenar = [] \<rparr>
       [\<lparr> nome = Some ''Alpha'', rede = Some ''Novo Mix'', cnpj = None, endereco_original = None,
          estado = Some ''SP'', latitude = Some 1, longitude = Some 1 \<rparr>,
        \<lparr> nome = Some ''Beta'', rede = Some ''Rede Mix'', cnpj = None,
          endereco_original = Some ''Centro, Rio-RJ'',
          estado = Some ''RJ'', latitude = Some 2, longitude = Some 2 \<rparr>,
        \<lparr> nome = Some ''Gama'', rede = Some ''Hiperideal'', cnpj = None,
          endereco_original = Some ''Centro, Campinas-SP, Brasil'',
          estado = None, latitude = Some 3, longitude = Some 3 \<rparr>]
     = [\<lparr> nome = Some ''Alpha'', rede = Some ''Novo Mix'', cnpj = None, endereco_original = None,
          estado = Some ''SP'', latitude = Some 1, longitude = Some 1 \<rparr>,
        \<lparr> nome = Some ''Gama'', rede = Some ''Hiperideal'', cnpj = None,
          endereco_original = Some ''Centro, Campinas-SP, Brasil'',
          estado = None, latitude = Some 3, longitude = Some 3 \<rparr>]"
proof -
  let ?f = "\<lparr> redes = [], estadoSel = ''sp'', cnpjSel = [], nomeSel = [], ordenar = [] \<rparr>"
  have a: "estadoSel ?f \<noteq> []" and b: "estadoSel ?f \<noteq> ''Todos''" by simp_all
  show ?thesis
    using a b applyFilters_estado [OF a b, THEN conjunct2]
    by (simp add: filtrar_def passaEstado_def avalia_texto)
qed

theorem applyFilters_estado_counterexample:
  "passaEstado \<lparr> redes = [], estadoSel = ''SP'', cnpjSel = [], nomeSel = [], ordenar = [] \<rparr>
     \<lparr> nome = Some ''Alpha'', rede = Some ''Novo Mix'', cnpj = None, endereco_original = None,
       estado = Some '' SP'', latitude = Some 1, longitude = Some 1 \<rparr>
   \<and> toLowerCase '' SP'' \<noteq> toLowerCase ''SP''
   \<and> endereco_original
       \<lparr> nome = Some ''Alpha'', rede = Some ''Novo Mix'', cnpj = None, endereco_original = None,
         estado = Some '' SP'', latitude = Some 1, longitude = Some 1 \<rparr> = None
   \<and> filtrar \<lparr> redes = [], estadoSel = ''SP'', cnpjSel = [], nomeSel = [], ordenar = [] \<rparr>
       [\<lparr> nome = Some ''Alpha'', rede = Some ''Novo Mix'', cnpj = None, endereco_original = None,
          estado = Some '' SP'', latitude = Some 1, longitude = Some 1 \<rparr>]
     = [\<lparr> nome = Some ''Alpha'', rede = Some ''Novo Mix'', cnpj = None, endereco_original = None,
          estado = Some '' SP'', latitude = Some 1, longitude = Some 1 \<rparr>]"
  by (simp add: filtrar_def passaEstado_def avalia_texto)

lemma passaNome_caixa:
  assumes "toLowerCase n = toLowerCase n'" and "toLowerCase q = toLowerCase q'"
  shows "passaNome (f\<lparr> nomeSel := q \<rparr>) (u\<lparr> nome := Some n \<rparr>)
         = passaNome (f'\<lparr> nomeSel := q' \<rparr>) (u'\<lparr> nome := Some n' \<rparr>)"
  using lower_eq_Nil [OF assms(1)] normaliza_lower [OF assms(1)] normaliza_lower [OF assms(2)]
  by (simp add: passaNome_iff)

text \<open>
  C4, as the script has it: the name filter does not depend on the case of the unit name
  or of the query (both are trimmed and lowercased); the network filter is membership of
  the unit's network in the selected names, by string equality, so that it depends on
  case; the tax identifier filter is containment of the query as it stands, with no change
  of case, where the query is the text of the input with the surrounding white space
  trimmed by \<^verbatim>\<open>lerFiltrosForm\<close>.
\<close>

theorem applyFilters_caixa:
  "(toLowerCase n = toLowerCase n' \<and> toLowerCase q = toLowerCase q'
      \<longrightarrow> passaNome (f\<lparr> nomeSel := q \<rparr>) (u\<lparr> nome := Some n \<rparr>)
          = passaNome (f\<lparr> nomeSel := q' \<rparr>) (u\<lparr> nome := Some n' \<rparr>))
   \<and> (passaNome f u =
        (\<exists>m. nome u = Some m \<and> m \<noteq> []
             \<and> sublist (toLowerCase (trim (nomeSel f))) (toLowerCase (trim m))))
   \<and> (passaRede f u = (\<exists>r. rede u = Some r \<and> r \<in> set (redes f)))
   \<and> (passaCnpj f u = (\<exists>c. cnpj u = Some c \<and> c \<noteq> [] \<and> sublist (cnpjSel f) c))
   \<and> cnpjSel (lerFiltrosForm d) = trim (inputCNPJ d)
   \<and> nomeSel (lerFiltrosForm d) = trim (inputNome d)"
proof (intro conjI impI)
  show "passaNome (f\<lparr> nomeSel := q \<rparr>) (u\<lparr> nome := Some n \<rparr>)
          = passaNome (f\<lparr> nomeSel := q' \<rparr>) (u\<lparr> nome := Some n' \<rparr>)"
    if "toLowerCase n = toLowerCase n' \<and> toLowerCase q = toLowerCase q'"
    using that by (intro passaNome_caixa) simp_all
  show "passaNome f u =
        (\<exists>m. nome u = Some m \<and> m \<noteq> []
             \<and> sublist (toLowerCase (trim (nomeSel f))) (toLowerCase (trim m)))"
    by (rule passaNome_iff)
  show "passaRede f u = (\<exists>r. rede u = Some r \<and> r \<in> set (redes f))"
    by (cases "rede u") (simp_all add: passaRede_def)
  show "passaCnpj f u = (\<exists>c. cnpj u = Some c \<and> c \<noteq> [] \<and> sublist (cnpjSel f) c)"
    by (rule passaCnpj_iff)
qed (simp_all add: lerFiltrosForm_def)

theorem applyFilters_caixa_witness:
  "toLowerCase ''ALPHA'' = toLowerCase ''Alpha'' \<and> toLowerCase ''lph'' = toLowerCase ''LPH''
   \<and> passaNome \<lparr> redes = [], estadoSel = ''Todos'', cnpjSel = [], nomeSel = ''LPH'', ordenar = [] \<rparr>
       \<lparr> nome = Some ''Alpha'', rede = Some ''Novo Mix'', cnpj = None, endereco_original = None,
         estado = Some ''SP'', latitude = Some 1, longitude = Some 1 \<rparr>"
proof -
  let ?f = "\<lparr> redes = [], estadoSel = ''Todos'', cnpjSel = [], nomeSel = ''lph'', ordenar = [] \<rparr>"
  let ?u = "\<lparr> nome = Some ''ALPHA'', rede = Some ''Novo Mix'', cnpj = None,
              endereco_original = None, estado = Some ''SP'', latitude = Some 1,
              longitude = Some 1 \<rparr>"
  have a: "toLowerCase ''ALPHA'' = toLowerCase ''Alpha'' \<and> toLowerCase ''lph'' = toLowerCase ''LPH''"
    by (simp add: avalia_texto)
  have "passaNome (?f\<lparr> nomeSel := ''lph'' \<rparr>) (?u\<lparr> nome := Some ''ALPHA'' \<rparr>)"
    by (simp add: passaNome_def avalia_texto)
  with applyFilters_caixa [of "''ALPHA''" "''Alpha''" "''lph''" "''LPH''" ?f ?u, THEN conjunct1] a
  show ?thesis by simp
qed

theorem applyFilters_caixa_counterexample:
  "toLowerCase ''NOVO MIX'' = toLowerCase ''Novo Mix''
   \<and> \<not> passaRede
         \<lparr> redes = [''NOVO MIX''], estadoSel = ''Todos'', cnpjSel = [], nomeSel = [], ordenar = [] \<rparr>
         \<lparr> nome = Some ''Alpha'', rede = Some ''Novo Mix'', cnpj = Some ''0123'',
           endereco_original = None, estado = Some ''SP'', latitude = Some 1,
           longitude = Some 1 \<rparr>
   \<and> filtrarOrdenar comparaCodigos
         \<lparr> redes = [''NOVO MIX''], estadoSel = ''Todos'', cnpjSel = [], nomeSel = [], ordenar = [] \<rparr>
         [\<lparr> nome = Some ''Alpha'', rede = Some ''Novo Mix'', cnpj = Some ''0123'',
            endereco_original = None, estado = Some ''SP'', latitude = Some 1,
            longitude = Some 1 \<rparr>] = []
   \<and> passaCnpj
         (lerFiltrosForm \<lparr> checkboxes = [], selectEstado = ''Todos'', inputCNPJ = '' 12 '',
            inputNome = [], selectOrdenar = [] \<rparr>)
         \<lparr> nome = Some ''Alpha'', rede = Some ''Novo Mix'', cnpj = Some ''0123'',
           endereco_original = None, estado = Some ''SP'', latitude = Some 1,
           longitude = Some 1 \<rparr>
   \<and> \<not> includesStr ''0123'' '' 12 ''"
  by (simp add: filtrarOrdenar_def filtrar_def comparador_def passaRede_def passaCnpj_def
      lerFiltrosForm_def avalia_texto)


section \<open>applyFilters on the page\<close>

lemma resultadoEm_novoArray:
  "novoArray xs b = (r, s) \<Longrightarrow> resultadoEm b r s xs"
  by (auto simp: novoArray_def resultadoEm_def)

lemma resultadoEm_filtra:
  assumes "resultadoEm b r s xs"
    and "(if g then filtraArray p r s else (r, s)) = (r', s')"
  shows "resultadoEm b r' s' (if g then filter p xs else xs)"
proof (cases g)
  case True
  with assms(2) have r': "r' = proximo s"
    and s': "s' = s\<lparr> arrays := (arrays s)(proximo s := filter p (arrays s r)),
                       proximo := Suc (proximo s) \<rparr>"
    by (auto simp: filtraArray_def novoArray_def)
  from assms(1) have "proximo b \<le> r" "r < proximo s" "arrays s r = xs"
    "\<forall>a<proximo b. arrays s a = arrays b a" "unidades s = unidades b"
    by (simp_all add: resultadoEm_def)
  with True show ?thesis unfolding resultadoEm_def r' s' by auto
next
  case False
  with assms show ?thesis by simp
qed

lemma resultadoEm_ordena:
  assumes "resultadoEm b r s xs"
  shows "resultadoEm b r (ordenaArray c r s) (ordena c xs)"
  using assms by (auto simp: resultadoEm_def ordenaArray_def)

lemma atualizarMapa_campos:
  "arrays (atualizarMapa r s) = arrays s \<and> unidades (atualizarMapa r s) = unidades s
   \<and> proximo (atualizarMapa r s) = proximo s
   \<and> unidadesAtuais (atualizarMapa r s) = r
   \<and> markersLayer (atualizarMapa r s) = adicionarMarcadores (arrays s r) []"
  by (simp add: atualizarMapa_def Let_def)

text \<open>
  The two embeddings of \<^verbatim>\<open>applyFilters\<close> agree: on the page, the array that the pass
  hands to \<^verbatim>\<open>atualizarMapa\<close> holds the list that \<^const>\<open>filtrarOrdenar\<close> computes from
  the criteria read from the form and the elements of \<^verbatim>\<open>unidades\<close>, and the markers
  drawn are those of this list.
\<close>

lemma applyFilters_resultadoEm:
  "resultadoEm s (unidadesAtuais (applyFilters lc s)) (applyFilters lc s)
     (filtrarOrdenar lc (lerFiltrosForm (formulario s)) (arrays s (unidades s)))
   \<and> markersLayer (applyFilters lc s)
       = adicionarMarcadores
           (filtrarOrdenar lc (lerFiltrosForm (formulario s)) (arrays s (unidades s))) []"
proof -
  let ?s0 = "s\<lparr> status := ''Filtrando...'' \<rparr>"
  let ?f = "lerFiltrosForm (formulario ?s0)"
  let ?us = "arrays ?s0 (unidades ?s0)"
  obtain r0 s1 where e0: "novoArray (arrays ?s0 (unidades ?s0)) ?s0 = (r0, s1)" by force
  obtain r1 s2 where e1:
    "(if redes ?f \<noteq> [] then filtraArray (passaRede ?f) r0 s1 else (r0, s1)) = (r1, s2)"
    by force
  obtain r2 s3 where e2:
    "(if estadoSel ?f \<noteq> [] \<and> estadoSel ?f \<noteq> ''Todos''
      then filtraArray (passaEstado ?f) r1 s2 else (r1, s2)) = (r2, s3)"
    by force
  obtain r3 s4 where e3:
    "(if cnpjSel ?f \<noteq> [] then filtraArray (passaCnpj ?f) r2 s3 else (r2, s3)) = (r3, s4)"
    by force
  obtain r4 s5 where e4:
    "(if nomeSel ?f \<noteq> [] then filtraArray (passaNome ?f) r3 s4 else (r3, s4)) = (r4, s5)"
    by force
  define s6 where "s6 = (case comparador lc (ordenar ?f) of None \<Rightarrow> s5
                          | Some c \<Rightarrow> ordenaArray c r4 s5)"
  have ap: "applyFilters lc s = (atualizarMapa r4 s6)\<lparr> status := ''Dados atualizados.'' \<rparr>"
    unfolding applyFilters_def Let_def s6_def using e0 e1 e2 e3 e4
    by (simp only: prod.case)
  have q0: "resultadoEm ?s0 r0 s1 ?us"
    by (rule resultadoEm_novoArray [OF e0])
  note q1 = resultadoEm_filtra [OF q0 e1]
  note q2 = resultadoEm_filtra [OF q1 e2]
  note q3 = resultadoEm_filtra [OF q2 e3]
  note q4 = resultadoEm_filtra [OF q3 e4]
  have q5: "resultadoEm ?s0 r4 s5 (filtrar ?f ?us)"
    using q4 unfolding filtrar_def Let_def .
  have q6: "resultadoEm ?s0 r4 s6 (filtrarOrdenar lc ?f ?us)"
  proof (cases "comparador lc (ordenar ?f)")
    case None
    with q5 show ?thesis by (simp add: s6_def filtrarOrdenar_def)
  next
    case (Some c)
    with resultadoEm_ordena [OF q5, of c] show ?thesis by (simp add: s6_def filtrarOrdenar_def)
  qed
  from q6 show ?thesis
    unfolding ap resultadoEm_def using atualizarMapa_campos [of r4 s6] by simp
qed

lemma applyFilters_resultado:
  "arrays (applyFilters lc s) (unidadesAtuais (applyFilters lc s))
     = filtrarOrdenar lc (lerFiltrosForm (formulario s)) (arrays s (unidades s))"
  using applyFilters_resultadoEm [of s lc] unfolding resultadoEm_def by blast

text \<open>
  C9: \<^verbatim>\<open>applyFilters\<close> does not change its input. When the variable \<^verbatim>\<open>unidades\<close> holds
  an array of the page, then after the pass the variable holds the same array with the same
  elements in the same order, every array that existed before is as it was, and the result,
  which \<^verbatim>\<open>unidadesAtuais\<close> now holds, is another array: the filtered and sorted copy.
\<close>

theorem applyFilters_nao_altera_unidades:
  assumes "unidades s < proximo s"
  shows "unidades (applyFilters lc s) = unidades s
         \<and> arrays (applyFilters lc s) (unidades s) = arrays s (unidades s)
         \<and> (\<forall>a<proximo s. arrays (applyFilters lc s) a = arrays s a)
         \<and> unidadesAtuais (applyFilters lc s) \<noteq> unidades s
         \<and> arrays (applyFilters lc s) (unidadesAtuais (applyFilters lc s))
             = filtrarOrdenar lc (lerFiltrosForm (formulario s)) (arrays s (unidades s))"
  using applyFilters_resultadoEm [of s lc] assms unfolding resultadoEm_def by auto

theorem applyFilters_nao_altera_unidades_witness:
  "unidades ((estadoInicial
        \<lparr> checkboxes = [], selectEstado = ''Todos'', inputCNPJ = [], inputNome = [],
          selectOrdenar = ''nome_az'' \<rparr> [])
      \<lparr> arrays := (\<lambda>_. [])(0 :=
        [\<lparr> nome = Some ''Beta'', rede = Some ''Rede Mix'', cnpj = None, endereco_original = None,
           estado = Some ''RJ'', latitude = Some 2, longitude = Some 2 \<rparr>,
         \<lparr> nome = Some ''Alpha'', rede = Some ''Novo Mix'', cnpj = None, endereco_original = None,
           estado = Some ''SP'', latitude = Some 1, longitude = Some 1 \<rparr>]) \<rparr>)
    < proximo ((estadoInicial
        \<lparr> checkboxes = [], selectEstado = ''Todos'', inputCNPJ = [], inputNome = [],
          selectOrdenar = ''nome_az'' \<rparr> [])
      \<lparr> arrays := (\<lambda>_. [])(0 :=
        [\<lparr> nome = Some ''Beta'', rede = Some ''Rede Mix'', cnpj = None, endereco_original = None,
           estado = Some ''RJ'', latitude = Some 2, longitude = Some 2 \<rparr>,
         \<lparr> nome = Some ''Alpha'', rede = Some ''Novo Mix'', cnpj = None, endereco_original = None,
           estado = Some ''SP'', latitude = Some 1, longitude = Some 1 \<rparr>]) \<rparr>)
   \<and> arrays (applyFilters comparaCodigos ((estadoInicial
        \<lparr> checkboxes = [], selectEstado = ''Todos'', inputCNPJ = [], inputNome = [],
          selectOrdenar = ''nome_az'' \<rparr> [])
      \<lparr> arrays := (\<lambda>_. [])(0 :=
        [\<lparr> nome = Some ''Beta'', rede = Some ''Rede Mix'', cnpj = None, endereco_original = None,
           estado = Some ''RJ'', latitude = Some 2, longitude = Some 2 \<rparr>,
         \<lparr> nome = Some ''Alpha'', rede = Some ''Novo Mix'', cnpj = None, endereco_original = None,
           estado = Some ''SP'', latitude = Some 1, longitude = Some 1 \<rparr>]) \<rparr>)) 0
     = [\<lparr> nome = Some ''Beta'', rede = Some ''Rede Mix'', cnpj = None, endereco_original = None,
           estado = Some ''RJ'', latitude = Some 2, longitude = Some 2 \<rparr>,
         \<lparr> nome = Some ''Alpha'', rede = Some ''Novo Mix'', cnpj = None, endereco_original = None,
           estado = Some ''SP'', latitude = Some 1, longitude = Some 1 \<rparr>]
   \<and> arrays (applyFilters comparaCodigos ((estadoInicial
        \<lparr> checkboxes = [], selectEstado = ''Todos'', inputCNPJ = [], inputNome = [],
          selectOrdenar = ''nome_az'' \<rparr> [])
      \<lparr> arrays := (\<lambda>_. [])(0 :=
        [\<lparr> nome = Some ''Beta'', rede = Some ''Rede Mix'', cnpj = None, endereco_original = None,
           estado = Some ''RJ'', latitude = Some 2, longitude = Some 2 \<rparr>,
         \<lparr> nome = Some ''Alpha'', rede = Some ''Novo Mix'', cnpj = None, endereco_original = None,
           estado = Some ''SP'', latitude = Some 1, longitude = Some 1 \<rparr>]) \<rparr>))
       (unidadesAtuais (applyFilters comparaCodigos ((estadoInicial
        \<lparr> checkboxes = [], selectEstado = ''Todos'', inputCNPJ = [], inputNome = [],
          selectOrdenar = ''nome_az'' \<rparr> [])
      \<lparr> arrays := (\<lambda>_. [])(0 :=
        [\<lparr> nome = Some ''Beta'', rede = Some ''Rede Mix'', cnpj = None, endereco_original = None,
           estado = Some ''RJ'', latitude = Some 2, longitude = Some 2 \<rparr>,
         \<lparr> nome = Some ''Alpha'', rede = Some ''Novo Mix'', cnpj = None, endereco_original = None,
           estado = Some ''SP'', latitude = Some 1, longitude = Some 1 \<rparr>]) \<rparr>)))
     = [\<lparr> nome = Some ''Alpha'', rede = Some ''Novo Mix'', cnpj = None, endereco_original = None,
           estado = Some ''SP'', latitude = Some 1, longitude = Some 1 \<rparr>,
         \<lparr> nome = Some ''Beta'', rede = Some ''Rede Mix'', cnpj = None, endereco_original = None,
           estado = Some ''RJ'', latitude = Some 2, longitude = Some 2 \<rparr>]"
proof -
  let ?s = "(estadoInicial
        \<lparr> checkboxes = [], selectEstado = ''Todos'', inputCNPJ = [], inputNome = [],
          selectOrdenar = ''nome_az'' \<rparr> [])
      \<lparr> arrays := (\<lambda>_. [])(0 :=
        [\<lparr> nome = Some ''Beta'', rede = Some ''Rede Mix'', cnpj = None, endereco_original = None,
           estado = Some ''RJ'', latitude = Some 2, longitude = Some 2 \<rparr>,
         \<lparr> nome = Some ''Alpha'', rede = Some ''Novo Mix'', cnpj = None, endereco_original = None,
           estado = Some ''SP'', latitude = Some 1, longitude = Some 1 \<rparr>]) \<rparr>"
  have h: "unidades ?s < proximo ?s" by (simp add: estadoInicial_def)
  have u: "unidades ?s = 0" by (simp add: estadoInicial_def)
  from applyFilters_nao_altera_unidades [OF h, of comparaCodigos]
  have a: "arrays (applyFilters comparaCodigos ?s) (unidades ?s) = arrays ?s (unidades ?s)"
    and b: "arrays (applyFilters comparaCodigos ?s) (unidadesAtuais (applyFilters comparaCodigos ?s))
             = filtrarOrdenar comparaCodigos (lerFiltrosForm (formulario ?s))
                 (arrays ?s (unidades ?s))"
    by blast+
  from a have "arrays (applyFilters comparaCodigos ?s) 0 = arrays ?s 0"
    unfolding u .
  moreover have "filtrarOrdenar comparaCodigos (lerFiltrosForm (formulario ?s))
                 (arrays ?s (unidades ?s)) = [\<lparr> nome = Some ''Alpha'', rede = Some ''Novo Mix'', cnpj = None, endereco_original = None,
           estado = Some ''SP'', latitude = Some 1, longitude = Some 1 \<rparr>,
         \<lparr> nome = Some ''Beta'', rede = Some ''Rede Mix'', cnpj = None, endereco_original = None,
           estado = Some ''RJ'', latitude = Some 2, longitude = Some 2 \<rparr>]"
    by (simp add: estadoInicial_def lerFiltrosForm_def filtrarOrdenar_def filtrar_def
        comparador_def trim_def orElse_def truthyStr_def)
  ultimately show ?thesis using h b by (simp add: estadoInicial_def)
qed

section \<open>Markers and popups\<close>

lemma criarMarcador_iff:
  "(criarMarcador u \<noteq> None)
     = (\<exists>la lo. latitude u = Some la \<and> longitude u = Some lo \<and> la \<noteq> 0 \<and> lo \<noteq> 0)"
  by (cases "latitude u"; cases "longitude u") (simp_all add: criarMarcador_def truthyNum_def)

lemma adicionarMarcadores_append:
  "adicionarMarcadores us ms = ms @ List.map_filter criarMarcador us"
  by (induction us arbitrary: ms) (simp_all add: List.map_filter_simps split: option.split)

lemma atualizarMapa_marcadores:
  "markersLayer (atualizarMapa r s) = List.map_filter criarMarcador (arrays s r)"
  by (simp add: atualizarMapa_campos adicionarMarcadores_append)

text \<open>
  C2 at a unit with a coordinate 0, such as a unit on the equator: the unit may have both a
  latitude and a longitude, and \<^verbatim>\<open>criarMarcador\<close> returns \<^verbatim>\<open>null\<close>, because the test
  \<^verbatim>\<open>!u.latitude\<close> takes the number 0 for an absent value.
\<close>

theorem criarMarcador_coordenada_zero:
  assumes "latitude u = Some 0 \<or> longitude u = Some 0"
  shows "criarMarcador u = None"
  using assms by (auto simp: criarMarcador_def truthyNum_def)

theorem criarMarcador_coordenada_zero_witness:
  "(latitude \<lparr> nome = Some ''Equador'', rede = Some ''Novo Mix'', cnpj = None,
       endereco_original = None, estado = Some ''AP'', latitude = Some 0,
       longitude = Some (- 51) \<rparr> = Some 0
    \<or> longitude \<lparr> nome = Some ''Equador'', rede = Some ''Novo Mix'', cnpj = None,
       endereco_original = None, estado = Some ''AP'', latitude = Some 0,
       longitude = Some (- 51) \<rparr> = Some 0)
   \<and> longitude \<lparr> nome = Some ''Equador'', rede = Some ''Novo Mix'', cnpj = None,
       endereco_original = None, estado = Some ''AP'', latitude = Some 0,
       longitude = Some (- 51) \<rparr> = Some (- 51)
   \<and> criarMarcador \<lparr> nome = Some ''Equador'', rede = Some ''Novo Mix'', cnpj = None,
       endereco_original = None, estado = Some ''AP'', latitude = Some 0,
       longitude = Some (- 51) \<rparr> = None"
proof -
  have h: "latitude \<lparr> nome = Some ''Equador'', rede = Some ''Novo Mix'', cnpj = None,
       endereco_original = None, estado = Some ''AP'', latitude = Some 0,
       longitude = Some (- 51) \<rparr> = Some 0
    \<or> longitude \<lparr> nome = Some ''Equador'', rede = Some ''Novo Mix'', cnpj = None,
       endereco_original = None, estado = Some ''AP'', latitude = Some 0,
       longitude = Some (- 51) \<rparr> = Some 0" by simp
  from criarMarcador_coordenada_zero [OF h] h show ?thesis by simp
qed

text \<open>
  C3, as the script has it: \<^verbatim>\<open>makePopupHtml\<close> gives a string for every unit, no operation
  in it can throw, and each field is filled on its own. An absent name gives the empty
  string; an absent or empty network, address or tax identifier gives \<open>N/A\<close>. The name
  does not default to \<open>N/A\<close>, as the unit without a name below shows.
\<close>

theorem makePopupHtml_campos:
  "makePopupHtml u =
     popupTemplate
       (case nome u of None \<Rightarrow> [] | Some s \<Rightarrow> s)
       (case rede u of None \<Rightarrow> ''N/A'' | Some s \<Rightarrow> if s = [] then ''N/A'' else s)
       (case endereco_original u of None \<Rightarrow> ''N/A'' | Some s \<Rightarrow> if s = [] then ''N/A'' else s)
       (case cnpj u of None \<Rightarrow> ''N/A'' | Some s \<Rightarrow> if s = [] then ''N/A'' else s)"
  by (simp add: makePopupHtml_def orElse_def truthyStr_def split: option.split)

theorem makePopupHtml_campos_counterexample:
  "makePopupHtml \<lparr> nome = None, rede = Some ''Novo Mix'', cnpj = None,
       endereco_original = None, estado = None, latitude = Some 1, longitude = Some 1 \<rparr>
     = popupTemplate [] ''Novo Mix'' ''N/A'' ''N/A''
   \<and> makePopupHtml \<lparr> nome = None, rede = Some ''Novo Mix'', cnpj = None,
       endereco_original = None, estado = None, latitude = Some 1, longitude = Some 1 \<rparr>
     \<noteq> popupTemplate ''N/A'' ''Novo Mix'' ''N/A'' ''N/A''"
  by (simp add: makePopupHtml_def orElse_def truthyStr_def popupTemplate_def)

section \<open>Failure of the initial load\<close>

text \<open>
  C8: when the request for the network names or the request for the units fails,
  \<^verbatim>\<open>carregarDados\<close> ends with the status text \<open>Erro ao carregar dados.\<close>, leaves the
  variable \<^verbatim>\<open>unidades\<close>, every array, both marker layers and the layers on the map as
  they were, and has fetched each endpoint at most once. From the initial page the unit
  list is still empty and no marker is on any layer.
\<close>

theorem carregarDados_falha:
  assumes "respRedes = Falha \<or> respAll = Falha"
  shows "status (carregarDados lc respRedes respAll s) = ''Erro ao carregar dados.''
         \<and> unidades (carregarDados lc respRedes respAll s) = unidades s
         \<and> arrays (carregarDados lc respRedes respAll s) = arrays s
         \<and> unidadesAtuais (carregarDados lc respRedes respAll s) = unidadesAtuais s
         \<and> markersLayer (carregarDados lc respRedes respAll s) = markersLayer s
         \<and> clusterGroup (carregarDados lc respRedes respAll s) = clusterGroup s
         \<and> noMapa (carregarDados lc respRedes respAll s) = noMapa s
         \<and> (pedidos (carregarDados lc respRedes respAll s) = pedidos s @ [ENDPOINT_REDES]
             \<or> pedidos (carregarDados lc respRedes respAll s)
                = pedidos s @ [ENDPOINT_REDES, ENDPOINT_ALL])
         \<and> (s = estadoInicial d txt \<longrightarrow>
               arrays (carregarDados lc respRedes respAll s)
                 (unidades (carregarDados lc respRedes respAll s)) = []
               \<and> markersLayer (carregarDados lc respRedes respAll s) = []
               \<and> clusterGroup (carregarDados lc respRedes respAll s) = []
               \<and> distinct (pedidos (carregarDados lc respRedes respAll s)))"
proof (cases respRedes)
  case Falha
  then show ?thesis
    by (simp add: carregarDados_def Let_def estadoInicial_def)
next
  case (Dados rs)
  with assms have "respAll = Falha" by simp
  with Dados show ?thesis
    by (simp add: carregarDados_def Let_def renderRedes_def estadoInicial_def
        ENDPOINT_REDES_def ENDPOINT_ALL_def)
qed

theorem carregarDados_falha_witness:
  "(Dados [''Novo Mix'', ''Rede Mix''] = (Falha :: string list resposta)
      \<or> (Falha :: unidade list resposta) = Falha)
   \<and> status (carregarDados comparaCodigos (Dados [''Novo Mix'', ''Rede Mix'']) Falha
        (estadoInicial
           \<lparr> checkboxes = [], selectEstado = ''Todos'', inputCNPJ = [], inputNome = [],
             selectOrdenar = ''nome_az'' \<rparr> ''Carregando...''))
       = ''Erro ao carregar dados.''
   \<and> markersLayer (carregarDados comparaCodigos (Dados [''Novo Mix'', ''Rede Mix'']) Falha
        (estadoInicial
           \<lparr> checkboxes = [], selectEstado = ''Todos'', inputCNPJ = [], inputNome = [],
             selectOrdenar = ''nome_az'' \<rparr> ''Carregando...'')) = []
   \<and> arrays (carregarDados comparaCodigos (Dados [''Novo Mix'', ''Rede Mix'']) Falha
        (estadoInicial
           \<lparr> checkboxes = [], selectEstado = ''Todos'', inputCNPJ = [], inputNome = [],
             selectOrdenar = ''nome_az'' \<rparr> ''Carregando...''))
       (unidades (carregarDados comparaCodigos (Dados [''Novo Mix'', ''Rede Mix'']) Falha
        (estadoInicial
           \<lparr> checkboxes = [], selectEstado = ''Todos'', inputCNPJ = [], inputNome = [],
             selectOrdenar = ''nome_az'' \<rparr> ''Carregando...''))) = []"
proof -
  have h: "Dados [''Novo Mix'', ''Rede Mix''] = (Falha :: string list resposta)
      \<or> (Falha :: unidade list resposta) = Falha" by simp
  from carregarDados_falha [OF h, of comparaCodigos
      "estadoInicial
           \<lparr> checkboxes = [], selectEstado = ''Todos'', inputCNPJ = [], inputNome = [],
             selectOrdenar = ''nome_az'' \<rparr> ''Carregando...''"
      "\<lparr> checkboxes = [], selectEstado = ''Todos'', inputCNPJ = [], inputNome = [],
             selectOrdenar = ''nome_az'' \<rparr>" "''Carregando...''"]
  show ?thesis using h by blast
qed

end
